theory Spec2Isabelle
  imports Main
begin

section \<open>Notification scheduling of the almanac server\<close>

text \<open>
  A shallow embedding of \<^verbatim>\<open>src/notificationScheduler.ts\<close>,
  \<^verbatim>\<open>src/pushNotificationService.ts\<close> and the push-subscription route of
  \<^verbatim>\<open>src/routes.ts\<close>. Database tables are lists of rows in scan order, the
  clock, the failures of the database and the answers of the push service are
  parameters of an environment, and every \<^verbatim>\<open>throw\<close> is a value.
\<close>

subsection \<open>JavaScript numbers, as far as time strings reach\<close>

text \<open>
  The scheduler computes with the results of \<^verbatim>\<open>Number(...)\<close> on the pieces of
  a time string. The model keeps the integers and \<^verbatim>\<open>NaN\<close>: arithmetic with
  \<^verbatim>\<open>NaN\<close> (or with \<^verbatim>\<open>undefined\<close>) gives \<^verbatim>\<open>NaN\<close>, and every
  comparison with \<^verbatim>\<open>NaN\<close> is false. Integers are exact in a double below
  \<open>2^53\<close>, far above any value a time of day produces.
\<close>

datatype jsnum = Num int | NaN

fun jadd :: "jsnum \<Rightarrow> jsnum \<Rightarrow> jsnum" where
  "jadd (Num a) (Num b) = Num (a + b)"
| "jadd _ _ = NaN"

fun jmul :: "jsnum \<Rightarrow> jsnum \<Rightarrow> jsnum" where
  "jmul (Num a) (Num b) = Num (a * b)"
| "jmul _ _ = NaN"

fun jlt :: "jsnum \<Rightarrow> jsnum \<Rightarrow> bool" where
  "jlt (Num a) (Num b) = (a < b)"
| "jlt _ _ = False"

fun jle :: "jsnum \<Rightarrow> jsnum \<Rightarrow> bool" where
  "jle (Num a) (Num b) = (a \<le> b)"
| "jle _ _ = False"

fun jgt :: "jsnum \<Rightarrow> jsnum \<Rightarrow> bool" where
  "jgt (Num a) (Num b) = (a > b)"
| "jgt _ _ = False"

fun jge :: "jsnum \<Rightarrow> jsnum \<Rightarrow> bool" where
  "jge (Num a) (Num b) = (a \<ge> b)"
| "jge _ _ = False"

subsection \<open>Parsing a time string\<close>

text \<open>\<^verbatim>\<open>s.split(':')\<close>: never empty; the empty string gives one empty piece.\<close>

fun split_colon :: "string \<Rightarrow> string list" where
  "split_colon [] = [[]]"
| "split_colon (c # cs) =
     (if c = CHR '':'' then [] # split_colon cs
      else (case split_colon cs of
              p # ps \<Rightarrow> (c # p) # ps
            | [] \<Rightarrow> [[c]]))"

definition isDigit :: "char \<Rightarrow> bool" where
  "isDigit c = (48 \<le> (of_char c :: nat) \<and> (of_char c :: nat) \<le> 57)"

definition isWhite :: "char \<Rightarrow> bool" where
  "isWhite c = ((of_char c :: nat) \<in> {9, 10, 11, 12, 13, 32})"

definition trim :: "string \<Rightarrow> string" where
  "trim s = rev (dropWhile isWhite (rev (dropWhile isWhite s)))"

definition decVal :: "string \<Rightarrow> nat" where
  "decVal s = foldl (\<lambda>a c. 10 * a + ((of_char c :: nat) - 48)) 0 s"

text \<open>
  \<^verbatim>\<open>Number(s)\<close> on a string, for the literals a time of day is written with:
  ASCII white space is trimmed, the empty string is \<open>0\<close>, an optionally signed
  run of decimal digits is its value, and a string of other ASCII characters that
  is no numeric literal is \<^verbatim>\<open>NaN\<close>. The other numeric literals of the language
  (a fraction, an exponent, a radix prefix, \<^verbatim>\<open>Infinity\<close>) and white space
  beyond ASCII are outside this model; no theorem below evaluates \<open>Number\<close> on
  such a string.
\<close>

definition Number :: "string \<Rightarrow> jsnum" where
  "Number s =
     (let t = trim s in
      if t = [] then Num 0
      else if list_all isDigit t then Num (int (decVal t))
      else (case t of
              c # r \<Rightarrow>
                if (c = CHR ''+'' \<or> c = CHR ''-'') \<and> r \<noteq> [] \<and> list_all isDigit r
                then Num ((if c = CHR ''-'' then - 1 else 1) * int (decVal r))
                else NaN
            | [] \<Rightarrow> NaN))"

text \<open>
  \<^verbatim>\<open>const [h, m] = s.split(':').map(Number); h * 60 + m\<close>. With a single piece
  \<^verbatim>\<open>m\<close> is \<^verbatim>\<open>undefined\<close> and the sum is \<^verbatim>\<open>NaN\<close>; pieces after the
  second are ignored.
\<close>

definition toMinutes :: "string \<Rightarrow> jsnum" where
  "toMinutes s =
     (case map Number (split_colon s) of
        h # m # _ \<Rightarrow> jadd (jmul h (Num 60)) m
      | _ \<Rightarrow> NaN)"

text \<open>\<^verbatim>\<open>value || dflt\<close> on a nullable text column: null and the empty string are falsy.\<close>

definition orDefault :: "string option \<Rightarrow> string \<Rightarrow> string" where
  "orDefault v dflt = (case v of None \<Rightarrow> dflt | Some s \<Rightarrow> if s = [] then dflt else s)"

subsection \<open>The clock\<close>

text \<open>
  A \<^verbatim>\<open>Date\<close> is its time value, milliseconds since the epoch. Its local
  hours and minutes are read with \<open>tz\<close>, the offset of the server's zone at that
  instant (milliseconds east of UTC).
\<close>

type_synonym date = int

definition getHours :: "int \<Rightarrow> date \<Rightarrow> int" where
  "getHours tz d = ((d + tz) div 3600000) mod 24"

definition getMinutes :: "int \<Rightarrow> date \<Rightarrow> int" where
  "getMinutes tz d = ((d + tz) div 60000) mod 60"

definition minuteOfDay :: "int \<Rightarrow> date \<Rightarrow> int" where
  "minuteOfDay tz d = getHours tz d * 60 + getMinutes tz d"

subsection \<open>Quiet hours and the digest window\<close>

text \<open>\<^verbatim>\<open>isQuietHours(quietStart, quietEnd)\<close>, with the instant it reads as \<open>now\<close>.\<close>

definition isQuietHours :: "int \<Rightarrow> date \<Rightarrow> string \<Rightarrow> string \<Rightarrow> bool" where
  "isQuietHours tz now quietStart quietEnd =
     (let currentTime = Num (minuteOfDay tz now);
          startTime = toMinutes quietStart;
          endTime = toMinutes quietEnd
      in if jgt startTime endTime
         then jge currentTime startTime \<or> jle currentTime endTime
         else jge currentTime startTime \<and> jle currentTime endTime)"

text \<open>
  The test before \<^verbatim>\<open>continue\<close> in the loop of \<^verbatim>\<open>sendDailyDigest\<close>: true
  when the user is skipped on this tick.
\<close>

definition outsideSendWindow :: "int \<Rightarrow> date \<Rightarrow> string option \<Rightarrow> bool" where
  "outsideSendWindow tz now preferredNotificationTime =
     (let currentTotalMinutes = Num (minuteOfDay tz now);
          preferredTotalMinutes = toMinutes (orDefault preferredNotificationTime ''09:00'')
      in jlt currentTotalMinutes preferredTotalMinutes
         \<or> jge currentTotalMinutes (jadd preferredTotalMinutes (Num 15)))"

text \<open>A time of day as the preferences form stores it: two digits, a colon, two digits.\<close>

definition digit :: "nat \<Rightarrow> char" where
  "digit n = char_of (48 + n mod 10)"

definition hhmm :: "nat \<Rightarrow> nat \<Rightarrow> string" where
  "hhmm h m = [digit (h div 10), digit h, CHR '':'', digit (m div 10), digit m]"


subsection \<open>Rows of the database and the state of the server\<close>

text \<open>
  Table \<^verbatim>\<open>notification_preferences\<close>. Every column but \<^verbatim>\<open>userId\<close> is
  nullable (it has a default and no \<^verbatim>\<open>notNull\<close>).
\<close>

record pref =
  userId :: nat
  tidesEnabled :: "bool option"
  sportsEnabled :: "bool option"
  astronomyEnabled :: "bool option"
  agricultureEnabled :: "bool option"
  culturalEnabled :: "bool option"
  holidaysEnabled :: "bool option"
  tidesFrequency :: "string option"
  sportsFrequency :: "string option"
  astronomyFrequency :: "string option"
  agricultureFrequency :: "string option"
  culturalFrequency :: "string option"
  holidaysFrequency :: "string option"
  preferredNotificationTime :: "string option"
  quietHoursStart :: "string option"
  quietHoursEnd :: "string option"

text \<open>Table \<^verbatim>\<open>push_subscriptions\<close>.\<close>

record subscription =
  s_id :: nat
  s_userId :: nat
  s_endpoint :: string
  s_keys :: "string \<times> string"
  s_userAgent :: "string option"
  s_createdAt :: date

text \<open>Table \<^verbatim>\<open>events\<close>, the columns the scheduler reads.\<close>

record event =
  e_id :: nat
  e_type :: string
  e_title :: string
  e_startAt :: date
  e_location :: "string option"

record payload =
  p_title :: string
  p_body :: string
  p_url :: "string option"
  p_tag :: "string option"

record NotificationContext =
  c_userId :: nat
  c_preferences :: pref
  c_subscriptions :: "subscription list"

text \<open>
  What is thrown: \<open>DbError\<close> when the database fails to answer a query,
  \<open>QueryRejected\<close> when it answers that the statement is not valid.
\<close>

datatype exn = DbError | QueryRejected

text \<open>What \<^verbatim>\<open>webpush.sendNotification\<close> does: it resolves, or rejects with an
  error that may carry a \<^verbatim>\<open>statusCode\<close>.\<close>

datatype push_result = Delivered | Failed "nat option"

text \<open>The places that read the clock or query the database for one user.\<close>

datatype site = AtQuietHours | AtSubscriptions | AtWindow | AtRelevantEvents | AtTides

datatype log =
    LogDigestRunning
  | LogDigestSent nat
  | LogDigestFailed
  | LogDigestCompleted
  | LogFailedToSend nat
  | LogImmediateSendFailed
  | LogImmediateFailed
  | LogNoSubscriptions nat
  | LogPushSent nat string
  | LogRemovedExpired nat
  | LogPushFailed nat
  | LogSendError

text \<open>
  The environment of one run of a job: the server's zone, the instant each site reads
  for each user, the tables the scheduler only reads, which queries throw, and the
  answer of the push service for an endpoint and a payload. The zone is its offset
  at an instant, and what moving a \<^verbatim>\<open>Date\<close> by one local calendar day
  (\<^verbatim>\<open>d.setDate(d.getDate() + 1)\<close>) and by one local hour
  (\<^verbatim>\<open>d.setHours(d.getHours() + 1)\<close>) gives: 24 hours and 60 minutes later
  where the offset does not change in between, as on a server that runs on UTC.
\<close>

record env =
  zoneOffset :: "date \<Rightarrow> int"
  plusDay :: "date \<Rightarrow> date"
  plusHour :: "date \<Rightarrow> date"
  clock :: "site \<Rightarrow> nat \<Rightarrow> date"
  prefsTable :: "pref list"
  eventsTable :: "event list"
  prefsSelectThrows :: bool
  selectThrows :: "site \<Rightarrow> nat \<Rightarrow> bool"
  sendSelectThrows :: "nat \<Rightarrow> payload \<Rightarrow> bool"
  deleteThrows :: "nat \<Rightarrow> bool"
  webpush :: "string \<Rightarrow> payload \<Rightarrow> push_result"

text \<open>
  The state that changes: the subscription table with its \<^verbatim>\<open>serial\<close> counter,
  the calls of \<^verbatim>\<open>sendToUser\<close> made so far, the pushes the push service accepted,
  and the console.
\<close>

record state =
  subsTable :: "subscription list"
  nextSubId :: nat
  calls :: "(nat \<times> payload) list"
  delivered :: "(string \<times> payload) list"
  logs :: "log list"

datatype 'a outcome = Returned 'a state | Thrown exn state

subsection \<open>Strings the payloads are built from\<close>

text \<open>A number in a template literal.\<close>

fun showNat :: "nat \<Rightarrow> string" where
  "showNat n = (if n < 10 then [digit n] else showNat (n div 10) @ [digit n])"

declare showNat.simps [simp del]

text \<open>\<^verbatim>\<open>xs.join(sep)\<close>.\<close>

fun joinStrings :: "string \<Rightarrow> string list \<Rightarrow> string" where
  "joinStrings sep [] = []"
| "joinStrings sep [x] = x"
| "joinStrings sep (x # y # ys) = x @ sep @ joinStrings sep (y # ys)"

subsection \<open>The push service: \<^verbatim>\<open>PushNotificationService.sendToUser\<close>\<close>

text \<open>
  The callback of \<^verbatim>\<open>subscriptions.map\<close> for one device. A rejected push with
  status 410 or 404 deletes the row of that id; when the delete itself throws, the
  promise of this device rejects and \<^verbatim>\<open>Promise.allSettled\<close> absorbs it.
\<close>

definition pushToDevice :: "env \<Rightarrow> nat \<Rightarrow> payload \<Rightarrow> state \<Rightarrow> subscription \<Rightarrow> state" where
  "pushToDevice en uid pl st sub =
     (case webpush en (s_endpoint sub) pl of
        Delivered \<Rightarrow>
          st\<lparr>delivered := delivered st @ [(s_endpoint sub, pl)],
             logs := logs st @ [LogPushSent uid (take 50 (s_endpoint sub))]\<rparr>
      | Failed statusCode \<Rightarrow>
          if statusCode = Some 410 \<or> statusCode = Some 404
          then (if deleteThrows en (s_id sub) then st
                else st\<lparr>subsTable := filter (\<lambda>r. s_id r \<noteq> s_id sub) (subsTable st),
                        logs := logs st @ [LogRemovedExpired uid]\<rparr>)
          else st\<lparr>logs := logs st @ [LogPushFailed uid]\<rparr>)"

text \<open>
  The devices are served one after the other here; the source starts them together,
  and the rows left in the table do not depend on the order.
\<close>

definition sendToUser :: "env \<Rightarrow> nat \<Rightarrow> payload \<Rightarrow> state \<Rightarrow> unit outcome" where
  "sendToUser en uid pl st0 =
     (let st = st0\<lparr>calls := calls st0 @ [(uid, pl)]\<rparr> in
      if sendSelectThrows en uid pl
      then Thrown DbError (st\<lparr>logs := logs st @ [LogSendError]\<rparr>)
      else
        let subscriptions = filter (\<lambda>s. s_userId s = uid) (subsTable st) in
        if length subscriptions = 0
        then Returned () (st\<lparr>logs := logs st @ [LogNoSubscriptions uid]\<rparr>)
        else Returned () (foldl (pushToDevice en uid pl) st subscriptions))"

subsection \<open>Candidates: \<^verbatim>\<open>getUsersForNotifications\<close>\<close>

fun collectContexts ::
  "env \<Rightarrow> state \<Rightarrow> pref list \<Rightarrow> NotificationContext list \<Rightarrow> exn + NotificationContext list" where
  "collectContexts en st [] contexts = Inr contexts"
| "collectContexts en st (p # prefs) contexts =
     (if isQuietHours (zoneOffset en (clock en AtQuietHours (userId p)))
           (clock en AtQuietHours (userId p))
           (orDefault (quietHoursStart p) ''22:00'') (orDefault (quietHoursEnd p) ''08:00'')
      then collectContexts en st prefs contexts
      else if selectThrows en AtSubscriptions (userId p) then Inl DbError
      else
        let subs = filter (\<lambda>s. s_userId s = userId p) (subsTable st) in
        if length subs > 0
        then collectContexts en st prefs
               (contexts @ [\<lparr>c_userId = userId p, c_preferences = p, c_subscriptions = subs\<rparr>])
        else collectContexts en st prefs contexts)"

definition getUsersForNotifications :: "env \<Rightarrow> state \<Rightarrow> exn + NotificationContext list" where
  "getUsersForNotifications en st =
     (if prefsSelectThrows en then Inl DbError
      else collectContexts en st (prefsTable en) [])"

subsection \<open>Relevant events: \<^verbatim>\<open>getRelevantEvents\<close>\<close>

text \<open>\<^verbatim>\<open>preferences.xEnabled && preferences.xFrequency !== 'never'\<close>.\<close>

definition wanted :: "bool option \<Rightarrow> string option \<Rightarrow> bool" where
  "wanted enabled frequency = (enabled = Some True \<and> frequency \<noteq> Some ''never'')"

definition eventTypes :: "pref \<Rightarrow> string list" where
  "eventTypes p =
     (if wanted (tidesEnabled p) (tidesFrequency p) then [''tide''] else [])
     @ (if wanted (sportsEnabled p) (sportsFrequency p) then [''match_liga'', ''uefa'', ''fifa''] else [])
     @ (if wanted (astronomyEnabled p) (astronomyFrequency p) then [''astronomy'', ''moon''] else [])
     @ (if wanted (agricultureEnabled p) (agricultureFrequency p) then [''agriculture''] else [])
     @ (if wanted (culturalEnabled p) (culturalFrequency p) then [''event_pt'', ''cultural''] else [])
     @ (if wanted (holidaysEnabled p) (holidaysFrequency p) then [''holiday''] else [])"

text \<open>
  The query of \<^verbatim>\<open>getRelevantEvents\<close>. Its filter on the type is the raw
  template \<^verbatim>\<open>sql`${events.type} = ANY(${eventTypes})`\<close> with a JavaScript
  array inside. The query builder renders the array as a parenthesised list of
  parameters, \<^verbatim>\<open>"type" = ANY(($1, ..., $n))\<close>, which is no array, and the
  database rejects the statement whatever the table holds and whatever the bounds
  on \<^verbatim>\<open>start_at\<close> and the limit are: the awaited query throws. (The sibling
  \<^verbatim>\<open>storage.getEvents\<close> filters with \<^verbatim>\<open>inArray\<close>.) The function is reached
  only with a list of types that is not empty.
\<close>

definition selectUpcomingEvents ::
  "env \<Rightarrow> string list \<Rightarrow> date \<Rightarrow> date \<Rightarrow> exn + event list" where
  "selectUpcomingEvents en types now tomorrow = Inl QueryRejected"

definition getRelevantEvents :: "env \<Rightarrow> NotificationContext \<Rightarrow> exn + event list" where
  "getRelevantEvents en ctx =
     (let preferences = c_preferences ctx;
          now = clock en AtRelevantEvents (c_userId ctx);
          tomorrow = plusDay en now;
          types = eventTypes preferences
      in if length types = 0 then Inr []
         else selectUpcomingEvents en types now tomorrow)"

subsection \<open>The digest job: \<^verbatim>\<open>sendDailyDigest\<close>\<close>

definition digestPayload :: "event list \<Rightarrow> payload" where
  "digestPayload relevantEvents =
     \<lparr>p_title = ''AlmanaqueLuso - '' @ showNat (length relevantEvents) @ '' eventos hoje'',
      p_body = joinStrings '', '' (map e_title (take 3 relevantEvents)),
      p_url = Some ''/dashboard'',
      p_tag = Some ''daily-digest''\<rparr>"

text \<open>
  The body of the loop for one context. Only the call of \<^verbatim>\<open>sendToUser\<close> stands
  inside the inner \<^verbatim>\<open>try\<close>; an exception of \<^verbatim>\<open>getRelevantEvents\<close> leaves the
  loop.
\<close>

definition digestStep :: "env \<Rightarrow> NotificationContext \<Rightarrow> nat \<Rightarrow> state \<Rightarrow> nat outcome" where
  "digestStep en ctx notificationsSent st =
     (if outsideSendWindow (zoneOffset en (clock en AtWindow (c_userId ctx)))
           (clock en AtWindow (c_userId ctx))
           (preferredNotificationTime (c_preferences ctx))
      then Returned notificationsSent st
      else
        (case getRelevantEvents en ctx of
           Inl e \<Rightarrow> Thrown e st
         | Inr relevantEvents \<Rightarrow>
             if length relevantEvents > 0
             then (case sendToUser en (c_userId ctx) (digestPayload relevantEvents) st of
                     Returned _ st' \<Rightarrow>
                       Returned (notificationsSent + length (c_subscriptions ctx)) st'
                   | Thrown e st' \<Rightarrow>
                       Returned notificationsSent
                         (st'\<lparr>logs := logs st' @ [LogFailedToSend (c_userId ctx)]\<rparr>))
             else Returned notificationsSent st))"

fun digestLoop :: "env \<Rightarrow> NotificationContext list \<Rightarrow> nat \<Rightarrow> state \<Rightarrow> nat outcome" where
  "digestLoop en [] notificationsSent st = Returned notificationsSent st"
| "digestLoop en (ctx # contexts) notificationsSent st =
     (case digestStep en ctx notificationsSent st of
        Returned n st' \<Rightarrow> digestLoop en contexts n st'
      | Thrown e st' \<Rightarrow> Thrown e st')"

definition sendDailyDigest :: "env \<Rightarrow> state \<Rightarrow> state" where
  "sendDailyDigest en st0 =
     (let st = st0\<lparr>logs := logs st0 @ [LogDigestRunning]\<rparr>;
          st1 = (case getUsersForNotifications en st of
                   Inl e \<Rightarrow> st\<lparr>logs := logs st @ [LogDigestFailed]\<rparr>
                 | Inr contexts \<Rightarrow>
                     (case digestLoop en contexts 0 st of
                        Returned n st' \<Rightarrow> st'\<lparr>logs := logs st' @ [LogDigestSent n]\<rparr>
                      | Thrown e st' \<Rightarrow> st'\<lparr>logs := logs st' @ [LogDigestFailed]\<rparr>))
      in st1\<lparr>logs := logs st1 @ [LogDigestCompleted]\<rparr>)"

subsection \<open>The immediate job: \<^verbatim>\<open>sendImmediateNotifications\<close>\<close>

text \<open>The title, in UTF-8.\<close>

definition tideTitle :: string where
  "tideTitle = ''AlmanaqueLuso - Mar'' @ [CHR 0xC3, CHR 0xA9] @ '' Pr''
               @ [CHR 0xC3, CHR 0xB3] @ ''xima''"

definition tidePayload :: "event \<Rightarrow> payload" where
  "tidePayload tide =
     \<lparr>p_title = tideTitle,
      p_body = e_title tide @ '' - '' @ (case e_location tide of None \<Rightarrow> ''null'' | Some l \<Rightarrow> l),
      p_url = Some ''/dashboard'',
      p_tag = Some (''tide-'' @ showNat (e_id tide))\<rparr>"

definition sendTide :: "env \<Rightarrow> nat \<Rightarrow> state \<Rightarrow> event \<Rightarrow> state" where
  "sendTide en uid st tide =
     (case sendToUser en uid (tidePayload tide) st of
        Returned _ st' \<Rightarrow> st'
      | Thrown e st' \<Rightarrow> st'\<lparr>logs := logs st' @ [LogImmediateSendFailed]\<rparr>)"

definition upcomingTides :: "env \<Rightarrow> date \<Rightarrow> event list" where
  "upcomingTides en now =
     take 5 (filter
       (\<lambda>e. e_type e = ''tide'' \<and> e_startAt e \<ge> now \<and> e_startAt e \<le> plusHour en now)
       (eventsTable en))"

definition immediateStep :: "env \<Rightarrow> NotificationContext \<Rightarrow> state \<Rightarrow> unit outcome" where
  "immediateStep en ctx st =
     (let preferences = c_preferences ctx in
      if tidesEnabled preferences \<noteq> Some True \<or> tidesFrequency preferences \<noteq> Some ''immediate''
      then Returned () st
      else
        let now = clock en AtTides (c_userId ctx) in
        if selectThrows en AtTides (c_userId ctx) then Thrown DbError st
        else
          let tides = upcomingTides en now in
          if length tides > 0
          then Returned () (foldl (sendTide en (c_userId ctx)) st tides)
          else Returned () st)"

fun immediateLoop :: "env \<Rightarrow> NotificationContext list \<Rightarrow> state \<Rightarrow> unit outcome" where
  "immediateLoop en [] st = Returned () st"
| "immediateLoop en (ctx # contexts) st =
     (case immediateStep en ctx st of
        Returned _ st' \<Rightarrow> immediateLoop en contexts st'
      | Thrown e st' \<Rightarrow> Thrown e st')"

definition sendImmediateNotifications :: "env \<Rightarrow> state \<Rightarrow> state" where
  "sendImmediateNotifications en st =
     (case getUsersForNotifications en st of
        Inl e \<Rightarrow> st\<lparr>logs := logs st @ [LogImmediateFailed]\<rparr>
      | Inr contexts \<Rightarrow>
          (case immediateLoop en contexts st of
             Returned _ st' \<Rightarrow> st'
           | Thrown e st' \<Rightarrow> st'\<lparr>logs := logs st' @ [LogImmediateFailed]\<rparr>))"

subsection \<open>The route \<^verbatim>\<open>POST /api/push/subscribe\<close>\<close>

text \<open>
  A property of the request body that may be missing, \<^verbatim>\<open>null\<close> or a value. The
  query builder leaves a column out of \<^verbatim>\<open>SET\<close> when its value is
  \<^verbatim>\<open>undefined\<close>, and an insert stores the column's default (here \<^verbatim>\<open>NULL\<close>).
\<close>

datatype 'a optional = Absent | Null | Value 'a

record subscribeBody =
  b_endpoint :: "string option"
  b_keys :: "(string \<times> string) option"
  b_userAgent :: "string optional"

record subscriptionData =
  d_userId :: nat
  d_endpoint :: string
  d_keys :: "string \<times> string"
  d_userAgent :: "string optional"

text \<open>
  \<^verbatim>\<open>insertPushSubscriptionSchema.parse({...req.body, userId})\<close>: the endpoint and
  the keys are required; the user is the authenticated one, whatever the body says.
  \<open>None\<close> is the thrown validation error.
\<close>

definition parseSubscription :: "nat \<Rightarrow> subscribeBody \<Rightarrow> subscriptionData option" where
  "parseSubscription uid body =
     (case (b_endpoint body, b_keys body) of
        (Some e, Some k) \<Rightarrow>
          Some \<lparr>d_userId = uid, d_endpoint = e, d_keys = k, d_userAgent = b_userAgent body\<rparr>
      | _ \<Rightarrow> None)"

datatype response = Json200 | Json500

definition setKeysAndAgent :: "subscriptionData \<Rightarrow> subscription \<Rightarrow> subscription" where
  "setKeysAndAgent d r =
     r\<lparr>s_keys := d_keys d,
       s_userAgent := (case d_userAgent d of
                         Absent \<Rightarrow> s_userAgent r
                       | Null \<Rightarrow> None
                       | Value v \<Rightarrow> Some v)\<rparr>"

definition newRow :: "nat \<Rightarrow> date \<Rightarrow> subscriptionData \<Rightarrow> subscription" where
  "newRow i now d =
     \<lparr>s_id = i, s_userId = d_userId d, s_endpoint = d_endpoint d, s_keys = d_keys d,
      s_userAgent = (case d_userAgent d of Value v \<Rightarrow> Some v | _ \<Rightarrow> None),
      s_createdAt = now\<rparr>"

definition subscribeRoute :: "date \<Rightarrow> nat \<Rightarrow> subscribeBody \<Rightarrow> state \<Rightarrow> response \<times> state" where
  "subscribeRoute now uid body st =
     (case parseSubscription uid body of
        None \<Rightarrow> (Json500, st)
      | Some subscriptionData \<Rightarrow>
          let existing = take 1 (filter (\<lambda>r. s_endpoint r = d_endpoint subscriptionData)
                                   (subsTable st))
          in if length existing > 0
             then (Json200,
                   st\<lparr>subsTable :=
                        map (\<lambda>r. if s_endpoint r = d_endpoint subscriptionData
                                 then setKeysAndAgent subscriptionData r else r)
                            (subsTable st)\<rparr>)
             else (Json200,
                   st\<lparr>subsTable := subsTable st @ [newRow (nextSubId st) now subscriptionData],
                      nextSubId := nextSubId st + 1\<rparr>))"


subsection \<open>The quiet hours of the push service: \<^verbatim>\<open>PushNotificationService.isQuietHours\<close>\<close>

text \<open>
  The push service has its own test, on the strings themselves: \<^verbatim>\<open>a < b\<close> on
  strings compares code units from the left, a proper prefix being smaller, and
  \<^verbatim>\<open>a >= b\<close> is its negation. The current time is written with
  \<^verbatim>\<open>padStart(2, '0')\<close>.
\<close>

fun strLess :: "string \<Rightarrow> string \<Rightarrow> bool" where
  "strLess [] [] = False"
| "strLess [] (y # ys) = True"
| "strLess (x # xs) [] = False"
| "strLess (x # xs) (y # ys) = ((of_char x :: nat) < of_char y \<or> (x = y \<and> strLess xs ys))"

definition strGreaterEq :: "string \<Rightarrow> string \<Rightarrow> bool" where
  "strGreaterEq a b = (\<not> strLess a b)"

definition PushNotificationService_isQuietHours :: "int \<Rightarrow> date \<Rightarrow> pref \<Rightarrow> bool" where
  "PushNotificationService_isQuietHours tz now prefs =
     (let currentTime = hhmm (nat (getHours tz now)) (nat (getMinutes tz now));
          quietStart = orDefault (quietHoursStart prefs) ''22:00'';
          quietEnd = orDefault (quietHoursEnd prefs) ''08:00''
      in if strLess quietEnd quietStart
         then strGreaterEq currentTime quietStart \<or> strLess currentTime quietEnd
         else strGreaterEq currentTime quietStart \<and> strLess currentTime quietEnd)"

subsection \<open>Vocabulary of the properties\<close>

text \<open>Where an outcome leaves the state, and whether it is an exception.\<close>

fun stateOf :: "'a outcome \<Rightarrow> state" where
  "stateOf (Returned _ st) = st"
| "stateOf (Thrown _ st) = st"

fun threw :: "'a outcome \<Rightarrow> bool" where
  "threw (Returned _ _) = False"
| "threw (Thrown _ _) = True"

text \<open>The push service reports the registration expired or not found.\<close>

definition gone :: "push_result \<Rightarrow> bool" where
  "gone r = (r = Failed (Some 410) \<or> r = Failed (Some 404))"

definition pruned :: "env \<Rightarrow> payload \<Rightarrow> subscription \<Rightarrow> bool" where
  "pruned en pl s = (gone (webpush en (s_endpoint s) pl) \<and> \<not> deleteThrows en (s_id s))"

text \<open>
  The categories as the specification words them: each category has its set of
  event-type codes, and the codes of a user are the union over the categories that
  are enabled with a frequency other than \<^verbatim>\<open>never\<close>.
\<close>

datatype category = Tides | Sports | Astronomy | Agriculture | Cultural | Holidays

fun categoryCodes :: "category \<Rightarrow> string set" where
  "categoryCodes Tides = {''tide''}"
| "categoryCodes Sports = {''match_liga'', ''uefa'', ''fifa''}"
| "categoryCodes Astronomy = {''astronomy'', ''moon''}"
| "categoryCodes Agriculture = {''agriculture''}"
| "categoryCodes Cultural = {''event_pt'', ''cultural''}"
| "categoryCodes Holidays = {''holiday''}"

fun categoryEnabled :: "pref \<Rightarrow> category \<Rightarrow> bool" where
  "categoryEnabled p Tides = (tidesEnabled p = Some True)"
| "categoryEnabled p Sports = (sportsEnabled p = Some True)"
| "categoryEnabled p Astronomy = (astronomyEnabled p = Some True)"
| "categoryEnabled p Agriculture = (agricultureEnabled p = Some True)"
| "categoryEnabled p Cultural = (culturalEnabled p = Some True)"
| "categoryEnabled p Holidays = (holidaysEnabled p = Some True)"

fun categoryFrequency :: "pref \<Rightarrow> category \<Rightarrow> string option" where
  "categoryFrequency p Tides = tidesFrequency p"
| "categoryFrequency p Sports = sportsFrequency p"
| "categoryFrequency p Astronomy = astronomyFrequency p"
| "categoryFrequency p Agriculture = agricultureFrequency p"
| "categoryFrequency p Cultural = culturalFrequency p"
| "categoryFrequency p Holidays = holidaysFrequency p"

definition enabledCodes :: "pref \<Rightarrow> string set" where
  "enabledCodes p =
     (\<Union>c \<in> {c. categoryEnabled p c \<and> categoryFrequency p c \<noteq> Some ''never''}. categoryCodes c)"



subsection \<open>Concrete rows, for evaluation\<close>

text \<open>A preferences row with the defaults of the schema.\<close>

definition defaultPref :: "nat \<Rightarrow> pref" where
  "defaultPref uid =
     \<lparr>userId = uid,
      tidesEnabled = Some True, sportsEnabled = Some True, astronomyEnabled = Some True,
      agricultureEnabled = Some False, culturalEnabled = Some True, holidaysEnabled = Some True,
      tidesFrequency = Some ''immediate'', sportsFrequency = Some ''daily'',
      astronomyFrequency = Some ''daily'', agricultureFrequency = Some ''weekly'',
      culturalFrequency = Some ''weekly'', holidaysFrequency = Some ''daily'',
      preferredNotificationTime = Some ''09:00'',
      quietHoursStart = Some ''22:00'', quietHoursEnd = Some ''08:00''\<rparr>"

definition malformedPref :: pref where
  "malformedPref = (defaultPref 1)\<lparr>preferredNotificationTime := Some ''soon'',
       quietHoursStart := Some ''late'', quietHoursEnd := Some ''early''\<rparr>"

definition equalPref :: pref where
  "equalPref = (defaultPref 1)\<lparr>quietHoursStart := Some ''10:00'', quietHoursEnd := Some ''10:00''\<rparr>"


definition device :: "nat \<Rightarrow> nat \<Rightarrow> string \<Rightarrow> subscription" where
  "device i uid ep =
     \<lparr>s_id = i, s_userId = uid, s_endpoint = ep, s_keys = (''p256dh'', ''auth''),
      s_userAgent = None, s_createdAt = 0\<rparr>"

definition nineOClock :: date where
  "nineOClock = 9 * 3600000"

definition matchEvent :: event where
  "matchEvent = \<lparr>e_id = 7, e_type = ''match_liga'', e_title = ''Benfica - Porto'',
                 e_startAt = nineOClock + 3 * 3600000, e_location = Some ''Lisboa''\<rparr>"



text \<open>
  Two users with default preferences, one match in three hours, every read of the
  clock at 09:00 of the first day on a server on UTC, a database that answers every
  query it accepts and a push service that accepts every push.
\<close>

definition quietEnv :: env where
  "quietEnv =
     \<lparr>zoneOffset = (\<lambda>_. 0), plusDay = (\<lambda>d. d + 86400000), plusHour = (\<lambda>d. d + 3600000),
      clock = (\<lambda>_ _. nineOClock),
      prefsTable = [defaultPref 1, defaultPref 2], eventsTable = [matchEvent],
      prefsSelectThrows = False, selectThrows = (\<lambda>_ _. False),
      sendSelectThrows = (\<lambda>_ _. False), deleteThrows = (\<lambda>_. False),
      webpush = (\<lambda>_ _. Delivered)\<rparr>"

text \<open>The same server at another hour of the first day, with a tide half an hour ahead.\<close>

definition tideAfter :: "date \<Rightarrow> event" where
  "tideAfter now = \<lparr>e_id = 11, e_type = ''tide'', e_title = ''Preia-mar'',
                    e_startAt = now + 30 * 60000, e_location = Some ''Peniche''\<rparr>"

definition envAt :: "date \<Rightarrow> pref list \<Rightarrow> env" where
  "envAt now prefs =
     quietEnv\<lparr>clock := (\<lambda>_ _. now), prefsTable := prefs, eventsTable := [tideAfter now]\<rparr>"

definition twoDevices :: state where
  "twoDevices =
     \<lparr>subsTable = [device 1 1 ''https://push.example/a'', device 2 2 ''https://push.example/b''],
      nextSubId = 3, calls = [], delivered = [], logs = []\<rparr>"

definition threeDevices :: state where
  "threeDevices =
     \<lparr>subsTable = [device 1 1 ''https://push.example/a'', device 2 1 ''https://push.example/b'',
                   device 3 1 ''https://push.example/c'', device 4 2 ''https://push.example/d''],
      nextSubId = 5, calls = [], delivered = [], logs = []\<rparr>"

definition flakyPush :: "string \<Rightarrow> payload \<Rightarrow> push_result" where
  "flakyPush ep pl =
     (if ep = ''https://push.example/a'' then Delivered
      else if ep = ''https://push.example/b'' then Failed (Some 410)
      else if ep = ''https://push.example/c'' then Failed (Some 500)
      else Failed (Some 404))"

definition testPayload :: payload where
  "testPayload = \<lparr>p_title = ''Teste AlmanaqueLuso'', p_body = ''Teste'',
                  p_url = Some ''/dashboard'', p_tag = Some ''test-notification''\<rparr>"

definition ctxOf :: "nat \<Rightarrow> state \<Rightarrow> NotificationContext" where
  "ctxOf uid st =
     \<lparr>c_userId = uid, c_preferences = defaultPref uid,
      c_subscriptions = filter (\<lambda>s. s_userId s = uid) (subsTable st)\<rparr>"


definition resubscribe :: subscribeBody where
  "resubscribe = \<lparr>b_endpoint = Some ''https://push.example/a'',
                  b_keys = Some (''p256dh2'', ''auth2''), b_userAgent = Absent\<rparr>"

definition firstSubscribe :: subscribeBody where
  "firstSubscribe = \<lparr>b_endpoint = Some ''https://push.example/z'',
                  b_keys = Some (''p256dh3'', ''auth3''), b_userAgent = Value ''Firefox''\<rparr>"


section \<open>Properties\<close>

subsection \<open>Times of day\<close>

lemma of_char_digit: "(of_char (digit n) :: nat) = 48 + n mod 10"
  unfolding digit_def by simp

lemma isDigit_digit: "isDigit (digit n)"
  unfolding isDigit_def of_char_digit by simp

lemma digit_not_white: "\<not> isWhite (digit n)"
  unfolding isWhite_def of_char_digit by simp

lemma digit_not_colon: "digit n \<noteq> CHR '':''"
proof
  assume "digit n = CHR '':''"
  then have "(of_char (digit n) :: nat) = of_char (CHR '':'')" by simp
  then have "48 + n mod 10 = (58::nat)" unfolding of_char_digit by simp
  then show False by presburger
qed

lemma trim_two: "trim [digit a, digit b] = [digit a, digit b]"
  by (simp add: trim_def digit_not_white)

lemma decVal_two: "decVal [digit a, digit b] = 10 * (a mod 10) + b mod 10"
  by (simp add: decVal_def of_char_digit)

lemma Number_two_digits: "Number [digit a, digit b] = Num (int (10 * (a mod 10) + b mod 10))"
  unfolding Number_def trim_two Let_def by (simp add: isDigit_digit decVal_two)

lemma split_colon_hhmm:
  "split_colon (hhmm h m) = [[digit (h div 10), digit h], [digit (m div 10), digit m]]"
  by (simp add: hhmm_def digit_not_colon)

lemma two_digit_value: "n < 100 \<Longrightarrow> 10 * ((n div 10) mod 10) + n mod 10 = (n::nat)"
proof -
  assume "n < 100"
  then have "n div 10 < 10" by simp
  then have "(n div 10) mod 10 = n div 10" by simp
  then show ?thesis by simp
qed

text \<open>A stored \<open>HH:MM\<close> is read back as \<open>60 * HH + MM\<close>.\<close>

lemma toMinutes_hhmm:
  assumes "h < 100" "m < 100"
  shows "toMinutes (hhmm h m) = Num (int h * 60 + int m)"
proof -
  have "toMinutes (hhmm h m) =
      Num (int (10 * ((h div 10) mod 10) + h mod 10) * 60
           + int (10 * ((m div 10) mod 10) + m mod 10))"
    unfolding toMinutes_def split_colon_hhmm
    by (simp only: list.map Number_two_digits list.case jmul.simps jadd.simps)
  then show ?thesis
    unfolding two_digit_value[OF assms(1)] two_digit_value[OF assms(2)] .
qed

lemma orDefault_hhmm: "orDefault (Some (hhmm h m)) d = hhmm h m"
  by (simp add: orDefault_def hhmm_def)

text \<open>Every instant has a minute of the day, and every minute of the day is reached.\<close>

lemma minuteOfDay_range: "0 \<le> minuteOfDay tz d \<and> minuteOfDay tz d < 1440"
proof -
  have "0 \<le> getHours tz d" "getHours tz d < 24" "0 \<le> getMinutes tz d" "getMinutes tz d < 60"
    by (simp_all add: getHours_def getMinutes_def)
  then show ?thesis unfolding minuteOfDay_def by linarith
qed

lemma minuteOfDay_reached:
  assumes "0 \<le> n" "n < 1440"
  shows "minuteOfDay tz (n * 60000 - tz) = n"
proof -
  have a: "(n * 60000) div 60000 = n" by simp
  have "(n * 60000) div 3600000 = ((n * 60000) div 60000) div 60"
    by (simp add: zdiv_zmult2_eq)
  then have b: "(n * 60000) div 3600000 = n div 60" using a by simp
  have c: "n div 60 < 24" "0 \<le> n div 60" using assms by simp_all
  have "minuteOfDay tz (n * 60000 - tz) = (n div 60) mod 24 * 60 + n mod 60"
    unfolding minuteOfDay_def getHours_def getMinutes_def by (simp add: a b)
  also have "\<dots> = n div 60 * 60 + n mod 60" using c by simp
  also have "\<dots> = n" by simp
  finally show ?thesis .
qed

subsection \<open>The digest send window\<close>

text \<open>
  C1. With the preferred time and the current time in minutes since midnight, the
  window test of \<^verbatim>\<open>sendDailyDigest\<close> lets the user through exactly when
  \<open>0 \<le> now - preferred < 15\<close>: never for a negative difference, never for one of
  15 minutes or more.
\<close>

theorem send_window_iff:
  assumes "h < 24" "m < 60"
  shows "(\<not> outsideSendWindow tz now (Some (hhmm h m))) =
         (0 \<le> minuteOfDay tz now - (int h * 60 + int m)
          \<and> minuteOfDay tz now - (int h * 60 + int m) < 15)"
proof -
  have "h < 100" "m < 100" using assms by simp_all
  then have "toMinutes (hhmm h m) = Num (int h * 60 + int m)" by (rule toMinutes_hhmm)
  then show ?thesis
    unfolding outsideSendWindow_def orDefault_hhmm Let_def by auto
qed

theorem send_window_iff_witness:
  "\<not> outsideSendWindow 0 (32400000 + 14 * 60000) (Some (hhmm 9 0))
   \<and> outsideSendWindow 0 (32400000 + 15 * 60000) (Some (hhmm 9 0))
   \<and> outsideSendWindow 0 (32400000 - 60000) (Some (hhmm 9 0))"
proof -
  have a: "minuteOfDay 0 (32400000 + 14 * 60000) = 554"
    and b: "minuteOfDay 0 (32400000 + 15 * 60000) = 555"
    and c: "minuteOfDay 0 (32400000 - 60000) = 539"
    by (simp_all add: minuteOfDay_def getHours_def getMinutes_def)
  have h: "(9::nat) < 24" "(0::nat) < 60" by simp_all
  show ?thesis
    using send_window_iff[OF h, of 0 "32400000 + 14 * 60000"]
          send_window_iff[OF h, of 0 "32400000 + 15 * 60000"]
          send_window_iff[OF h, of 0 "32400000 - 60000"]
    unfolding a b c by simp
qed

subsection \<open>Quiet hours\<close>

text \<open>
  C3. With start, end and the current time in minutes since midnight: when
  \<open>start \<le> end\<close>, \<^verbatim>\<open>isQuietHours\<close> holds exactly when
  \<open>start \<le> now \<le> end\<close>; when \<open>start > end\<close> (the window wraps past midnight),
  exactly when \<open>now \<ge> start\<close> or \<open>now \<le> end\<close>.
\<close>

theorem quiet_hours_iff:
  assumes "sh < 24" "sm < 60" "eh < 24" "em < 60"
  shows "isQuietHours tz now (hhmm sh sm) (hhmm eh em) =
         (if int sh * 60 + int sm \<le> int eh * 60 + int em
          then int sh * 60 + int sm \<le> minuteOfDay tz now
               \<and> minuteOfDay tz now \<le> int eh * 60 + int em
          else minuteOfDay tz now \<ge> int sh * 60 + int sm
               \<or> minuteOfDay tz now \<le> int eh * 60 + int em)"
proof -
  have "sh < 100" "sm < 100" "eh < 100" "em < 100" using assms by simp_all
  then have "toMinutes (hhmm sh sm) = Num (int sh * 60 + int sm)"
    and "toMinutes (hhmm eh em) = Num (int eh * 60 + int em)"
    by (simp_all add: toMinutes_hhmm)
  then show ?thesis
    unfolding isQuietHours_def Let_def by auto
qed

theorem quiet_hours_iff_witness:
  "isQuietHours 0 (23 * 3600000 + 30 * 60000) (hhmm 22 0) (hhmm 8 0)
   \<and> \<not> isQuietHours 0 (12 * 3600000) (hhmm 22 0) (hhmm 8 0)
   \<and> isQuietHours 0 (12 * 3600000) (hhmm 9 30) (hhmm 17 0)
   \<and> \<not> isQuietHours 0 (18 * 3600000) (hhmm 9 30) (hhmm 17 0)"
proof -
  have a: "minuteOfDay 0 (23 * 3600000 + 30 * 60000) = 1410"
    and b: "minuteOfDay 0 (12 * 3600000) = 720"
    and c: "minuteOfDay 0 (18 * 3600000) = 1080"
    by (simp_all add: minuteOfDay_def getHours_def getMinutes_def)
  have n: "(22::nat) < 24" "(0::nat) < 60" "(8::nat) < 24" "(0::nat) < 60" by simp_all
  have d: "(9::nat) < 24" "(30::nat) < 60" "(17::nat) < 24" "(0::nat) < 60" by simp_all
  show ?thesis
    using quiet_hours_iff[OF n, of 0 "23 * 3600000 + 30 * 60000"]
          quiet_hours_iff[OF n, of 0 "12 * 3600000"]
          quiet_hours_iff[OF d, of 0 "12 * 3600000"]
          quiet_hours_iff[OF d, of 0 "18 * 3600000"]
    unfolding a b c by simp
qed

text \<open>
  With equal start and end the scheduler's test holds during exactly that one minute
  of the day; the test of the push service never holds.
\<close>

lemma isQuietHours_equal_times:
  assumes "h < 24" "m < 60"
  shows "isQuietHours tz now (hhmm h m) (hhmm h m) = (minuteOfDay tz now = int h * 60 + int m)"
proof -
  have "h < 100" "m < 100" using assms by simp_all
  then have "toMinutes (hhmm h m) = Num (int h * 60 + int m)" by (rule toMinutes_hhmm)
  then show ?thesis
    unfolding isQuietHours_def Let_def by auto
qed

lemma strLess_irrefl: "\<not> strLess a a"
  by (induction a) simp_all

lemma service_never_quiet_at_equal:
  assumes "orDefault (quietHoursStart prefs) ''22:00'' = orDefault (quietHoursEnd prefs) ''08:00''"
  shows "\<not> PushNotificationService_isQuietHours tz now prefs"
  using assms strLess_irrefl
  by (simp add: PushNotificationService_isQuietHours_def Let_def strGreaterEq_def)

text \<open>
  C4. The claim: with \<^verbatim>\<open>quietHoursStart\<close> equal to \<^verbatim>\<open>quietHoursEnd\<close> the
  user is never in quiet hours. The scheduler's \<^verbatim>\<open>isQuietHours\<close> has no case
  for equality and tests \<open>start \<le> now \<le> end\<close>: at 10:00, with quiet hours from
  10:00 to 10:00, it holds, where the test of the push service on the same
  preferences does not; the tide alert due on the tick of 10:00 is not sent to the
  user, and the same alert one minute later is.
\<close>

theorem equal_quiet_hours_mute:
  "isQuietHours 0 (10 * 3600000) ''10:00'' ''10:00''
   \<and> \<not> PushNotificationService_isQuietHours 0 (10 * 3600000) equalPref
   \<and> delivered (sendImmediateNotifications (envAt (10 * 3600000) [equalPref]) twoDevices) = []
   \<and> delivered (sendImmediateNotifications (envAt (10 * 3600000 + 60000) [equalPref]) twoDevices)
       = [(''https://push.example/a'', tidePayload (tideAfter (10 * 3600000 + 60000)))]"
  by code_simp

subsection \<open>The push service\<close>

lemma pushToDevice_subsTable:
  "subsTable (pushToDevice en uid pl st sub) =
     (if pruned en pl sub then filter (\<lambda>r. s_id r \<noteq> s_id sub) (subsTable st) else subsTable st)"
  by (auto simp: pushToDevice_def pruned_def gone_def split: push_result.splits)


lemma pushToDevice_delivered:
  "delivered (pushToDevice en uid pl st sub) =
     delivered st @ (if webpush en (s_endpoint sub) pl = Delivered then [(s_endpoint sub, pl)] else [])"
  by (simp add: pushToDevice_def split: push_result.splits)

lemma foldl_pushToDevice_subsTable:
  "subsTable (foldl (pushToDevice en uid pl) st subs) =
     filter (\<lambda>r. \<forall>s \<in> set subs. pruned en pl s \<longrightarrow> s_id r \<noteq> s_id s) (subsTable st)"
proof (induction subs arbitrary: st)
  case Nil
  then show ?case by simp
next
  case (Cons a subs)
  show ?case
    unfolding foldl_Cons Cons.IH pushToDevice_subsTable
    by (auto intro: filter_cong)
qed


lemma foldl_pushToDevice_delivered:
  "delivered (foldl (pushToDevice en uid pl) st subs) =
     delivered st @ map (\<lambda>s. (s_endpoint s, pl)) (filter (\<lambda>s. webpush en (s_endpoint s) pl = Delivered) subs)"
  by (induction subs arbitrary: st) (simp_all add: pushToDevice_delivered)

lemma sendToUser_threw: "threw (sendToUser en uid pl st) = sendSelectThrows en uid pl"
  by (simp add: sendToUser_def Let_def)


lemma sendToUser_subsTable:
  assumes "\<not> sendSelectThrows en uid pl"
  shows "subsTable (stateOf (sendToUser en uid pl st)) =
     filter (\<lambda>r. \<forall>s \<in> set (subsTable st). s_userId s = uid \<and> pruned en pl s \<longrightarrow> s_id r \<noteq> s_id s) (subsTable st)"
  using assms
  by (auto simp add: sendToUser_def Let_def foldl_pushToDevice_subsTable filter_empty_conv intro!: filter_cong)

lemma sendToUser_delivered:
  assumes "\<not> sendSelectThrows en uid pl"
  shows "delivered (stateOf (sendToUser en uid pl st)) =
     delivered st @ map (\<lambda>s. (s_endpoint s, pl))
        (filter (\<lambda>s. s_userId s = uid \<and> webpush en (s_endpoint s) pl = Delivered) (subsTable st))"
  using assms
  by (auto simp add: sendToUser_def Let_def foldl_pushToDevice_delivered filter_empty_conv)

lemma distinct_ids_filter:
  assumes "distinct (map s_id tbl)"
  shows "filter (\<lambda>r. \<forall>s \<in> set tbl. P s \<longrightarrow> s_id r \<noteq> s_id s) tbl = filter (\<lambda>r. \<not> P r) tbl"
proof (rule filter_cong[OF refl])
  fix r assume r: "r \<in> set tbl"
  have "\<And>s. s \<in> set tbl \<Longrightarrow> s_id s = s_id r \<Longrightarrow> s = r"
    using assms r by (meson distinct_map inj_onD)
  then show "(\<forall>s \<in> set tbl. P s \<longrightarrow> s_id r \<noteq> s_id s) = (\<not> P r)"
    using r by metis
qed

text \<open>
  C8. For every user and payload, with \<^verbatim>\<open>id\<close> the primary key of the table:
  \<^verbatim>\<open>sendToUser\<close> throws only when its own query for the user's registrations
  throws, whatever the push service answers for any device and whether or not a
  delete succeeds; otherwise the table it leaves is the old one without exactly the
  user's registrations whose push was answered 410 or 404 (and whose delete went
  through), so a registration that failed any other way, one that was served, and
  every registration of another user stay; and each of the user's devices that the
  push service accepts is served, whatever happened to the others.
\<close>

theorem sendToUser_devices:
  assumes "distinct (map s_id (subsTable st))"
  shows "threw (sendToUser en uid pl st) = sendSelectThrows en uid pl
    \<and> (\<not> sendSelectThrows en uid pl \<longrightarrow>
         subsTable (stateOf (sendToUser en uid pl st)) =
           filter (\<lambda>r. \<not> (s_userId r = uid \<and> gone (webpush en (s_endpoint r) pl) \<and> \<not> deleteThrows en (s_id r)))
             (subsTable st)
       \<and> delivered (stateOf (sendToUser en uid pl st)) =
           delivered st @ map (\<lambda>s. (s_endpoint s, pl))
             (filter (\<lambda>s. s_userId s = uid \<and> webpush en (s_endpoint s) pl = Delivered) (subsTable st)))"
  using distinct_ids_filter[OF assms, of "\<lambda>s. s_userId s = uid \<and> pruned en pl s"]
  by (simp add: sendToUser_threw sendToUser_subsTable sendToUser_delivered pruned_def)

theorem sendToUser_devices_witness:
  "\<not> threw (sendToUser (quietEnv\<lparr>webpush := flakyPush\<rparr>) 1 testPayload threeDevices)
   \<and> subsTable (stateOf (sendToUser (quietEnv\<lparr>webpush := flakyPush\<rparr>) 1 testPayload threeDevices))
     = [device 1 1 ''https://push.example/a'', device 3 1 ''https://push.example/c'',
        device 4 2 ''https://push.example/d'']
   \<and> delivered (stateOf (sendToUser (quietEnv\<lparr>webpush := flakyPush\<rparr>) 1 testPayload threeDevices))
     = [(''https://push.example/a'', testPayload)]"
proof -
  let ?en = "quietEnv\<lparr>webpush := flakyPush\<rparr>"
  have d: "distinct (map s_id (subsTable threeDevices))" by code_simp
  have n: "\<not> sendSelectThrows ?en 1 testPayload" by code_simp
  have f: "filter (\<lambda>r. \<not> (s_userId r = 1 \<and> gone (webpush ?en (s_endpoint r) testPayload)
                          \<and> \<not> deleteThrows ?en (s_id r))) (subsTable threeDevices)
      = [device 1 1 ''https://push.example/a'', device 3 1 ''https://push.example/c'',
         device 4 2 ''https://push.example/d'']"
    by code_simp
  have g: "delivered threeDevices @ map (\<lambda>s. (s_endpoint s, testPayload))
             (filter (\<lambda>s. s_userId s = 1 \<and> webpush ?en (s_endpoint s) testPayload = Delivered)
                (subsTable threeDevices))
      = [(''https://push.example/a'', testPayload)]"
    by code_simp
  show ?thesis
    using sendToUser_devices[OF d, of ?en 1 testPayload] n
    unfolding f g by simp
qed

subsection \<open>Relevant events of the digest\<close>

text \<open>The list of types the code builds is the union the specification describes.\<close>

lemma set_eventTypes: "set (eventTypes p) = enabledCodes p"
proof (rule set_eqI)
  fix x
  have "x \<in> enabledCodes p \<longleftrightarrow>
      (\<exists>c. categoryEnabled p c \<and> categoryFrequency p c \<noteq> Some ''never'' \<and> x \<in> categoryCodes c)"
    unfolding enabledCodes_def by auto
  also have "\<dots> \<longleftrightarrow>
      (wanted (tidesEnabled p) (tidesFrequency p) \<and> x \<in> categoryCodes Tides)
    \<or> (wanted (sportsEnabled p) (sportsFrequency p) \<and> x \<in> categoryCodes Sports)
    \<or> (wanted (astronomyEnabled p) (astronomyFrequency p) \<and> x \<in> categoryCodes Astronomy)
    \<or> (wanted (agricultureEnabled p) (agricultureFrequency p) \<and> x \<in> categoryCodes Agriculture)
    \<or> (wanted (culturalEnabled p) (culturalFrequency p) \<and> x \<in> categoryCodes Cultural)
    \<or> (wanted (holidaysEnabled p) (holidaysFrequency p) \<and> x \<in> categoryCodes Holidays)"
    (is "(\<exists>c. ?P c) \<longleftrightarrow> ?R")
  proof
    assume "\<exists>c. ?P c"
    then obtain c where c: "?P c" by blast
    then show ?R unfolding wanted_def by (cases c) simp_all
  next
    assume ?R
    then show "\<exists>c. ?P c" unfolding wanted_def
      by (metis categoryEnabled.simps categoryFrequency.simps)
  qed
  also have "\<dots> \<longleftrightarrow> x \<in> set (eventTypes p)"
    unfolding eventTypes_def by (simp only: set_append Un_iff categoryCodes.simps) auto
  finally show "x \<in> set (eventTypes p) \<longleftrightarrow> x \<in> enabledCodes p" by simp
qed

text \<open>
  What the fetch comes to: the empty list when no category is enabled, and the
  rejected query otherwise.
\<close>

lemma getRelevantEvents_eq:
  "getRelevantEvents en ctx =
     (if enabledCodes (c_preferences ctx) = {} then Inr [] else Inl QueryRejected)"
proof -
  have "(eventTypes (c_preferences ctx) = []) = (enabledCodes (c_preferences ctx) = {})"
    using set_eventTypes[of "c_preferences ctx"] by (metis set_empty)
  then show ?thesis
    by (simp add: getRelevantEvents_def selectUpcomingEvents_def Let_def)
qed



subsection \<open>The digest job\<close>

text \<open>
  The body of the loop for one context: outside the window and with no category
  enabled it returns with the state as it was; inside the window with a category
  enabled it throws what the query throws, and the loop is left with it.
\<close>

lemma digestStep_outside:
  assumes "outsideSendWindow (zoneOffset en (clock en AtWindow (c_userId ctx)))
             (clock en AtWindow (c_userId ctx)) (preferredNotificationTime (c_preferences ctx))"
  shows "digestStep en ctx n st = Returned n st"
  using assms by (simp add: digestStep_def)

lemma digestStep_silent:
  assumes "enabledCodes (c_preferences ctx) = {}"
  shows "digestStep en ctx n st = Returned n st"
  using assms by (simp add: digestStep_def getRelevantEvents_eq)

lemma digestStep_rejected:
  assumes "\<not> outsideSendWindow (zoneOffset en (clock en AtWindow (c_userId ctx)))
             (clock en AtWindow (c_userId ctx)) (preferredNotificationTime (c_preferences ctx))"
      and "enabledCodes (c_preferences ctx) \<noteq> {}"
  shows "digestStep en ctx n st = Thrown QueryRejected st"
  using assms by (simp add: digestStep_def getRelevantEvents_eq)

lemma digestLoop_leaves:
  assumes "digestStep en ctx n st = Thrown e st'"
  shows "digestLoop en (ctx # rest) n st = Thrown e st'"
  using assms by simp


text \<open>
  C2. The claim: an exception while one user is processed (the fetch of the user's
  subscriptions, the query of the event store, or the delivery) is caught and the
  remaining users are still processed. In the code only the call of
  \<^verbatim>\<open>sendToUser\<close> stands in the per-user \<^verbatim>\<open>try\<close>. When the event query
  throws for user 1, the loop ends there whatever contexts follow, and the tick
  with users 1 and 2 leaves nothing but the log of a failed job; when the
  subscription fetch throws for user 1, no context is returned whatever rows
  follow, and the tick ends the same way.
\<close>

theorem digest_isolation_fails:
  "(\<forall>rest n st. digestLoop quietEnv (ctxOf 1 twoDevices # rest) n st = Thrown QueryRejected st)
   \<and> sendDailyDigest quietEnv twoDevices
       = twoDevices\<lparr>logs := [LogDigestRunning, LogDigestFailed, LogDigestCompleted]\<rparr>
   \<and> (\<forall>more. getUsersForNotifications
         (quietEnv\<lparr>prefsTable := defaultPref 1 # more,
                   selectThrows := (\<lambda>s u. s = AtSubscriptions \<and> u = 1)\<rparr>) twoDevices
       = Inl DbError)
   \<and> sendDailyDigest (quietEnv\<lparr>selectThrows := (\<lambda>s u. s = AtSubscriptions \<and> u = 1)\<rparr>) twoDevices
       = twoDevices\<lparr>logs := [LogDigestRunning, LogDigestFailed, LogDigestCompleted]\<rparr>"
proof -
  have s: "\<And>n st. digestStep quietEnv (ctxOf 1 twoDevices) n st = Thrown QueryRejected st"
  proof -
    fix n st
    have w: "\<not> outsideSendWindow (zoneOffset quietEnv (clock quietEnv AtWindow (c_userId (ctxOf 1 twoDevices))))
             (clock quietEnv AtWindow (c_userId (ctxOf 1 twoDevices)))
             (preferredNotificationTime (c_preferences (ctxOf 1 twoDevices)))"
      by code_simp
    have "eventTypes (defaultPref 1) \<noteq> []" by code_simp
    then have "set (eventTypes (defaultPref 1)) \<noteq> {}" by simp
    then have c: "enabledCodes (c_preferences (ctxOf 1 twoDevices)) \<noteq> {}"
      unfolding set_eventTypes by (simp add: ctxOf_def)
    show "digestStep quietEnv (ctxOf 1 twoDevices) n st = Thrown QueryRejected st"
      using w c by (rule digestStep_rejected)
  qed
  have 1: "\<forall>rest n st. digestLoop quietEnv (ctxOf 1 twoDevices # rest) n st = Thrown QueryRejected st"
    using s by (simp add: digestLoop_leaves)
  have 2: "sendDailyDigest quietEnv twoDevices
       = twoDevices\<lparr>logs := [LogDigestRunning, LogDigestFailed, LogDigestCompleted]\<rparr>"
    by code_simp
  have q: "\<not> isQuietHours 0 nineOClock ''22:00'' ''08:00''" by code_simp
  have 3: "\<forall>more. getUsersForNotifications
         (quietEnv\<lparr>prefsTable := defaultPref 1 # more,
                   selectThrows := (\<lambda>s u. s = AtSubscriptions \<and> u = 1)\<rparr>) twoDevices
       = Inl DbError"
    using q by (simp add: getUsersForNotifications_def quietEnv_def defaultPref_def orDefault_def)
  have 4: "sendDailyDigest (quietEnv\<lparr>selectThrows := (\<lambda>s u. s = AtSubscriptions \<and> u = 1)\<rparr>) twoDevices
       = twoDevices\<lparr>logs := [LogDigestRunning, LogDigestFailed, LogDigestCompleted]\<rparr>"
    by code_simp
  show ?thesis using 1 2 3 4 by blast
qed

subsection \<open>The immediate job\<close>























subsection \<open>Times that do not parse\<close>

text \<open>A time string without digits never closes the window and never makes quiet hours.\<close>

lemma malformed_never_outside: "\<not> outsideSendWindow z now (Some ''soon'')"
  by (simp add: outsideSendWindow_def orDefault_def toMinutes_def)

lemma malformed_never_quiet: "\<not> isQuietHours z now ''late'' ''early''"
  by (simp add: isQuietHours_def toMinutes_def)

text \<open>
  C7. The claim: a user whose stored time strings cannot be parsed is skipped. In the
  code the unparsed times are \<^verbatim>\<open>NaN\<close>, every comparison with them is false, and
  so the user is never in quiet hours and never outside the send window: on the
  tick of 03:00 the tide alert is pushed to the device of a user with the times
  \<^verbatim>\<open>soon\<close>, \<^verbatim>\<open>late\<close> and \<^verbatim>\<open>early\<close>, where the same user with the
  default times (quiet until 08:00) receives nothing.
\<close>

theorem malformed_times_fail_open:
  "(\<forall>z now. \<not> outsideSendWindow z now (Some ''soon''))
   \<and> (\<forall>z now. \<not> isQuietHours z now ''late'' ''early'')
   \<and> delivered (sendImmediateNotifications (envAt (3 * 3600000) [malformedPref]) twoDevices)
       = [(''https://push.example/a'', tidePayload (tideAfter (3 * 3600000)))]
   \<and> delivered (sendImmediateNotifications (envAt (3 * 3600000) [defaultPref 1]) twoDevices) = []"
proof -
  have a: "delivered (sendImmediateNotifications (envAt (3 * 3600000) [malformedPref]) twoDevices)
       = [(''https://push.example/a'', tidePayload (tideAfter (3 * 3600000)))]"
    by code_simp
  have b: "delivered (sendImmediateNotifications (envAt (3 * 3600000) [defaultPref 1]) twoDevices) = []"
    by code_simp
  show ?thesis
    using a b malformed_never_outside malformed_never_quiet by blast
qed

subsection \<open>The subscribe route\<close>

lemma subscribe_existing:
  assumes "b_endpoint body = Some ep" and "b_keys body = Some ks"
      and "\<exists>r \<in> set (subsTable st). s_endpoint r = ep"
  shows "subscribeRoute now uid body st =
      (Json200, st\<lparr>subsTable :=
          map (\<lambda>r. if s_endpoint r = ep
                   then setKeysAndAgent \<lparr>d_userId = uid, d_endpoint = ep, d_keys = ks,
                                          d_userAgent = b_userAgent body\<rparr> r
                   else r) (subsTable st)\<rparr>)"
proof -
  have "length (take 1 (filter (\<lambda>r. s_endpoint r = ep) (subsTable st))) > 0"
    using assms(3) by (auto simp add: filter_empty_conv)
  then show ?thesis
    using assms(1,2) by (simp add: subscribeRoute_def parseSubscription_def Let_def)
qed

lemma subscribe_new:
  assumes "b_endpoint body = Some ep" and "b_keys body = Some ks"
      and "\<not> (\<exists>r \<in> set (subsTable st). s_endpoint r = ep)"
  shows "subscribeRoute now uid body st =
      (Json200, st\<lparr>subsTable := subsTable st
            @ [newRow (nextSubId st) now \<lparr>d_userId = uid, d_endpoint = ep, d_keys = ks,
                                          d_userAgent = b_userAgent body\<rparr>],
          nextSubId := nextSubId st + 1\<rparr>)"
proof -
  have "\<not> length (take 1 (filter (\<lambda>r. s_endpoint r = ep) (subsTable st))) > 0"
    using assms(3) by (auto simp add: filter_empty_conv)
  then show ?thesis
    using assms(1,2) by (simp add: subscribeRoute_def parseSubscription_def Let_def)
qed

text \<open>
  C10. For a subscribe request that parses (it has an endpoint and keys), by any
  authenticated user: when a row with that endpoint exists, no row is added and the
  counter of ids stays; every row keeps its \<^verbatim>\<open>id\<close>, its owning \<^verbatim>\<open>userId\<close>
  (also when the requester is another user), its \<^verbatim>\<open>endpoint\<close> and its
  \<^verbatim>\<open>createdAt\<close>; a row with another endpoint is unchanged altogether, and the
  row of that endpoint takes the keys of the request and its userAgent (the old
  userAgent stays when the request carries none). When no row has that endpoint,
  one row is appended, owned by the requesting user, with the endpoint and keys of
  the request.
\<close>

theorem subscribe_frame:
  assumes "b_endpoint body = Some ep" and "b_keys body = Some ks"
  shows "((\<exists>r \<in> set (subsTable st). s_endpoint r = ep) \<longrightarrow>
           fst (subscribeRoute now uid body st) = Json200
           \<and> nextSubId (snd (subscribeRoute now uid body st)) = nextSubId st
           \<and> length (subsTable (snd (subscribeRoute now uid body st))) = length (subsTable st)
           \<and> (\<forall>i < length (subsTable st).
                 s_id (subsTable (snd (subscribeRoute now uid body st)) ! i) = s_id (subsTable st ! i)
               \<and> s_userId (subsTable (snd (subscribeRoute now uid body st)) ! i)
                   = s_userId (subsTable st ! i)
               \<and> s_endpoint (subsTable (snd (subscribeRoute now uid body st)) ! i)
                   = s_endpoint (subsTable st ! i)
               \<and> s_createdAt (subsTable (snd (subscribeRoute now uid body st)) ! i)
                   = s_createdAt (subsTable st ! i)
               \<and> (s_endpoint (subsTable st ! i) \<noteq> ep \<longrightarrow>
                    subsTable (snd (subscribeRoute now uid body st)) ! i = subsTable st ! i)
               \<and> (s_endpoint (subsTable st ! i) = ep \<longrightarrow>
                    s_keys (subsTable (snd (subscribeRoute now uid body st)) ! i) = ks
                  \<and> s_userAgent (subsTable (snd (subscribeRoute now uid body st)) ! i) =
                      (case b_userAgent body of
                         Absent \<Rightarrow> s_userAgent (subsTable st ! i)
                       | Null \<Rightarrow> None
                       | Value v \<Rightarrow> Some v))))
     \<and> (\<not> (\<exists>r \<in> set (subsTable st). s_endpoint r = ep) \<longrightarrow>
           fst (subscribeRoute now uid body st) = Json200
           \<and> (\<exists>row. subsTable (snd (subscribeRoute now uid body st)) = subsTable st @ [row]
                  \<and> s_userId row = uid \<and> s_endpoint row = ep \<and> s_keys row = ks
                  \<and> s_id row = nextSubId st \<and> s_createdAt row = now))"
proof (intro conjI impI)
  assume e: "\<exists>r \<in> set (subsTable st). s_endpoint r = ep"
  show "fst (subscribeRoute now uid body st) = Json200"
    and "nextSubId (snd (subscribeRoute now uid body st)) = nextSubId st"
    and "length (subsTable (snd (subscribeRoute now uid body st))) = length (subsTable st)"
    unfolding subscribe_existing[OF assms e] by simp_all
  show "\<forall>i < length (subsTable st).
                 s_id (subsTable (snd (subscribeRoute now uid body st)) ! i) = s_id (subsTable st ! i)
               \<and> s_userId (subsTable (snd (subscribeRoute now uid body st)) ! i)
                   = s_userId (subsTable st ! i)
               \<and> s_endpoint (subsTable (snd (subscribeRoute now uid body st)) ! i)
                   = s_endpoint (subsTable st ! i)
               \<and> s_createdAt (subsTable (snd (subscribeRoute now uid body st)) ! i)
                   = s_createdAt (subsTable st ! i)
               \<and> (s_endpoint (subsTable st ! i) \<noteq> ep \<longrightarrow>
                    subsTable (snd (subscribeRoute now uid body st)) ! i = subsTable st ! i)
               \<and> (s_endpoint (subsTable st ! i) = ep \<longrightarrow>
                    s_keys (subsTable (snd (subscribeRoute now uid body st)) ! i) = ks
                  \<and> s_userAgent (subsTable (snd (subscribeRoute now uid body st)) ! i) =
                      (case b_userAgent body of
                         Absent \<Rightarrow> s_userAgent (subsTable st ! i)
                       | Null \<Rightarrow> None
                       | Value v \<Rightarrow> Some v))"
    unfolding subscribe_existing[OF assms e] by (simp add: setKeysAndAgent_def)
next
  assume e: "\<not> (\<exists>r \<in> set (subsTable st). s_endpoint r = ep)"
  show "fst (subscribeRoute now uid body st) = Json200"
    unfolding subscribe_new[OF assms e] by simp
  show "\<exists>row. subsTable (snd (subscribeRoute now uid body st)) = subsTable st @ [row]
                  \<and> s_userId row = uid \<and> s_endpoint row = ep \<and> s_keys row = ks
                  \<and> s_id row = nextSubId st \<and> s_createdAt row = now"
    unfolding subscribe_new[OF assms e] by (simp add: newRow_def)
qed

theorem subscribe_frame_witness:
  "s_userId (subsTable (snd (subscribeRoute 5 2 resubscribe twoDevices)) ! 0) = 1
   \<and> s_keys (subsTable (snd (subscribeRoute 5 2 resubscribe twoDevices)) ! 0) = (''p256dh2'', ''auth2'')
   \<and> subsTable (snd (subscribeRoute 5 2 resubscribe twoDevices)) ! 1 = subsTable twoDevices ! 1
   \<and> length (subsTable (snd (subscribeRoute 5 2 resubscribe twoDevices))) = 2
   \<and> length (subsTable (snd (subscribeRoute 5 2 firstSubscribe twoDevices))) = 3
   \<and> s_userId (last (subsTable (snd (subscribeRoute 5 2 firstSubscribe twoDevices)))) = 2"
proof -
  have b1: "b_endpoint resubscribe = Some ''https://push.example/a''"
    and b2: "b_keys resubscribe = Some (''p256dh2'', ''auth2'')"
    by (simp_all add: resubscribe_def)
  have c1: "b_endpoint firstSubscribe = Some ''https://push.example/z''"
    and c2: "b_keys firstSubscribe = Some (''p256dh3'', ''auth3'')"
    by (simp_all add: firstSubscribe_def)
  have e: "\<exists>r \<in> set (subsTable twoDevices). s_endpoint r = ''https://push.example/a''"
    by (simp add: twoDevices_def device_def)
  have n: "\<not> (\<exists>r \<in> set (subsTable twoDevices). s_endpoint r = ''https://push.example/z'')"
    by (simp add: twoDevices_def device_def)
  have t: "length (subsTable twoDevices) = 2"
    "s_endpoint (subsTable twoDevices ! 0) = ''https://push.example/a''"
    "s_endpoint (subsTable twoDevices ! 1) \<noteq> ''https://push.example/a''"
    "s_userId (subsTable twoDevices ! 0) = 1"
    by (simp_all add: twoDevices_def device_def)
  note old = mp[OF conjunct1[OF subscribe_frame[OF b1 b2, of twoDevices 5 2]] e]
  note new = mp[OF conjunct2[OF subscribe_frame[OF c1 c2, of twoDevices 5 2]] n]
  from old have len: "length (subsTable (snd (subscribeRoute 5 2 resubscribe twoDevices))) = 2"
    using t(1) by simp
  from old have rows: "\<forall>i < 2.
                 s_userId (subsTable (snd (subscribeRoute 5 2 resubscribe twoDevices)) ! i)
                   = s_userId (subsTable twoDevices ! i)
               \<and> (s_endpoint (subsTable twoDevices ! i) \<noteq> ''https://push.example/a'' \<longrightarrow>
                    subsTable (snd (subscribeRoute 5 2 resubscribe twoDevices)) ! i = subsTable twoDevices ! i)
               \<and> (s_endpoint (subsTable twoDevices ! i) = ''https://push.example/a'' \<longrightarrow>
                    s_keys (subsTable (snd (subscribeRoute 5 2 resubscribe twoDevices)) ! i) = (''p256dh2'', ''auth2''))"
    unfolding t(1) by blast
  have r0: "s_userId (subsTable (snd (subscribeRoute 5 2 resubscribe twoDevices)) ! 0) = 1"
    "s_keys (subsTable (snd (subscribeRoute 5 2 resubscribe twoDevices)) ! 0) = (''p256dh2'', ''auth2'')"
    using rows t(2,4) by auto
  have r1: "subsTable (snd (subscribeRoute 5 2 resubscribe twoDevices)) ! 1 = subsTable twoDevices ! 1"
    using rows t(3) by auto
  from new obtain row where
    "subsTable (snd (subscribeRoute 5 2 firstSubscribe twoDevices)) = subsTable twoDevices @ [row]"
    "s_userId row = 2" by blast
  then have f: "length (subsTable (snd (subscribeRoute 5 2 firstSubscribe twoDevices))) = 3"
    "s_userId (last (subsTable (snd (subscribeRoute 5 2 firstSubscribe twoDevices)))) = 2"
    using t(1) by simp_all
  show ?thesis using r0 r1 len f by simp
qed

end
